theory Spec2Isabelle
  imports Complex_Main
begin

section \<open>EmTechScan: external OCR engine wrapper (emtechscan.py, class ExternalOCREngine)\<close>

text \<open>
  The development embeds \<^verbatim>\<open>ExternalOCREngine\<close>: \<^verbatim>\<open>engine_available\<close>,
  \<^verbatim>\<open>_preprocess_image\<close>, \<^verbatim>\<open>_save_temp_png\<close> and \<^verbatim>\<open>recognize\<close>.
  Everything the methods do to the outside is explicit: the file system, the executable
  search path, the temporary-name generator and the external tools are fields of a
  \<open>world\<close> record that every operation takes and returns, together with a trace of the
  operations performed. Exceptions are values of the type \<open>error\<close>; a method returns
  \<open>error + 'a\<close> paired with the world it leaves.

  OpenCV is a third-party library: its functions are the fields of a record \<open>cv2\<close> that
  the model takes as a parameter and calls with the arguments the source passes. They are
  total; the only failure of the library that the source handles, \<^verbatim>\<open>imread\<close>
  returning \<^verbatim>\<open>None\<close>, is an \<open>option\<close>.
\<close>

subsection \<open>Data\<close>

type_synonym path = string

text \<open>A byte is a number below 256; a Python \<^verbatim>\<open>str\<close> holding recognised text is its list
  of code points. Names that are only compared and passed on (engine names, the language
  hint, paths, command lines) are \<open>string\<close>s.\<close>

type_synonym byte = nat
type_synonym unicode = "nat list"

text \<open>A single-channel 8-bit raster, as \<^verbatim>\<open>cv2.imread(..., IMREAD_GRAYSCALE)\<close> returns it:
  the list of its rows.\<close>

type_synonym image = "nat list list"

datatype error =
    FileNotFoundError string
  | ValueError string
  | OSError
  | FileExistsError
  | UnicodeDecodeError

datatype event =
    Imread path
  | MinAreaRect
  | WarpAffine
  | Mkstemp path
  | Imwrite path
  | Spawn "string list"
  | Open path
  | Remove path

subsection \<open>Text: \<^verbatim>\<open>str.strip()\<close>, the UTF-8 codec and newline translation\<close>

text \<open>\<^verbatim>\<open>str.isspace\<close> for one code point: the characters Python strips.\<close>

definition isspace :: "nat \<Rightarrow> bool" where
  "isspace c \<longleftrightarrow>
     (9 \<le> c \<and> c \<le> 13) \<or> (28 \<le> c \<and> c \<le> 32) \<or> c = 133 \<or> c = 160 \<or> c = 5760 \<or>
     (8192 \<le> c \<and> c \<le> 8202) \<or> c = 8232 \<or> c = 8233 \<or> c = 8239 \<or> c = 8287 \<or> c = 12288"

definition strip :: "unicode \<Rightarrow> unicode" where
  "strip s = rev (dropWhile isspace (rev (dropWhile isspace s)))"

text \<open>The error handlers of \<^verbatim>\<open>bytes.decode\<close> / \<^verbatim>\<open>open(..., errors=...)\<close>.\<close>

datatype errors = Strict | Ignore | Replace

text \<open>One step of the UTF-8 decoder on a non-empty input: either a code point and the
  number of bytes it took, or the number of bytes of the malformed sequence (the bytes
  that were accepted before the decoder stopped, at least one).\<close>

datatype utf8_step = Decoded nat nat | Malformed nat

definition is_continuation :: "byte \<Rightarrow> bool" where
  "is_continuation b \<longleftrightarrow> 128 \<le> b \<and> b < 192"

fun utf8_next :: "byte \<Rightarrow> byte list \<Rightarrow> utf8_step" where
  "utf8_next b0 rest =
     (if b0 < 128 then Decoded b0 1
      else if b0 < 194 then Malformed 1
      else if b0 < 224 then
        (case rest of
           b1 # _ \<Rightarrow> if is_continuation b1 then Decoded ((b0 - 192) * 64 + (b1 - 128)) 2
                     else Malformed 1
         | [] \<Rightarrow> Malformed 1)
      else if b0 < 240 then
        (case rest of
           b1 # r1 \<Rightarrow>
             if is_continuation b1 \<and> \<not> (b0 = 224 \<and> b1 < 160) \<and> \<not> (b0 = 237 \<and> 160 \<le> b1) then
               (case r1 of
                  b2 # _ \<Rightarrow>
                    if is_continuation b2
                    then Decoded ((b0 - 224) * 4096 + (b1 - 128) * 64 + (b2 - 128)) 3
                    else Malformed 2
                | [] \<Rightarrow> Malformed 2)
             else Malformed 1
         | [] \<Rightarrow> Malformed 1)
      else if b0 < 245 then
        (case rest of
           b1 # r1 \<Rightarrow>
             if is_continuation b1 \<and> \<not> (b0 = 240 \<and> b1 < 144) \<and> \<not> (b0 = 244 \<and> 144 \<le> b1) then
               (case r1 of
                  b2 # r2 \<Rightarrow>
                    if is_continuation b2 then
                      (case r2 of
                         b3 # _ \<Rightarrow>
                           if is_continuation b3
                           then Decoded ((b0 - 240) * 262144 + (b1 - 128) * 4096
                                          + (b2 - 128) * 64 + (b3 - 128)) 4
                           else Malformed 3
                       | [] \<Rightarrow> Malformed 3)
                    else Malformed 2
                | [] \<Rightarrow> Malformed 2)
             else Malformed 1
         | [] \<Rightarrow> Malformed 1)
      else Malformed 1)"

text \<open>\<^verbatim>\<open>bytes.decode('utf-8', errors)\<close>: \<open>Strict\<close> raises at the first malformed sequence,
  \<open>Ignore\<close> drops it, \<open>Replace\<close> puts U+FFFD (65533) in its place.\<close>

fun utf8_decode :: "errors \<Rightarrow> byte list \<Rightarrow> error + unicode" where
  "utf8_decode h [] = Inr []"
| "utf8_decode h (b # bs) =
     (case utf8_next b bs of
        Decoded c n \<Rightarrow> map_sum id ((#) c) (utf8_decode h (drop (n - 1) bs))
      | Malformed n \<Rightarrow>
          (case h of
             Strict \<Rightarrow> Inl UnicodeDecodeError
           | Ignore \<Rightarrow> utf8_decode h (drop (n - 1) bs)
           | Replace \<Rightarrow> map_sum id ((#) 65533) (utf8_decode h (drop (n - 1) bs))))"

text \<open>Universal newlines of a file opened in text mode: \<^verbatim>\<open>\r\n\<close> and a lone \<^verbatim>\<open>\r\<close>
  are read as \<^verbatim>\<open>\n\<close>.\<close>

fun translate_newlines :: "unicode \<Rightarrow> unicode" where
  "translate_newlines [] = []"
| "translate_newlines (c # cs) =
     (if c = 13 then
        (case cs of
           d # ds \<Rightarrow> if d = 10 then 10 # translate_newlines ds else 10 # translate_newlines cs
         | [] \<Rightarrow> [10])
      else c # translate_newlines cs)"


subsection \<open>The outside world\<close>

text \<open>What \<^verbatim>\<open>subprocess.run(..., stdout=PIPE, stderr=PIPE, text=True)\<close> hands back:
  the \<^verbatim>\<open>CompletedProcess\<close> with the captured, decoded streams.\<close>

record completed_process =
  returncode :: int
  stdout :: unicode
  stderr :: unicode

text \<open>What an external command does: either it cannot be started (the error that
  \<^verbatim>\<open>Popen\<close> raises), or it runs and exits with a return code, the bytes it wrote to
  its standard output and to its error stream, and the file system it leaves behind.\<close>

datatype run_outcome =
    Cannot_start error
  | Exited int "byte list" "byte list" "path \<rightharpoonup> byte list"

record world =
  on_path :: "string \<Rightarrow> bool"
  files :: "path \<rightharpoonup> byte list"
  undeletable :: "path \<Rightarrow> bool"
  tmp_candidates :: "string list"
  run_tool :: "string list \<Rightarrow> (path \<rightharpoonup> byte list) \<Rightarrow> run_outcome"
  trace :: "event list"

text \<open>
  \<^item> \<open>on_path w name\<close>: \<^verbatim>\<open>shutil.which(name) is not None\<close>;
  \<^item> \<open>files w\<close>: the file system, a map from paths to contents;
  \<^item> \<open>undeletable w p\<close>: \<^verbatim>\<open>os.remove(p)\<close> fails although \<open>p\<close> exists (permissions);
  \<^item> \<open>tmp_candidates w\<close>: the names the temporary-name generator will propose, in order
    (directory and random part; \<^verbatim>\<open>mkstemp\<close> appends the suffix);
  \<^item> \<open>run_tool w argv fs\<close>: what running \<open>argv\<close> on the file system \<open>fs\<close> does;
  \<^item> \<open>trace w\<close>: the operations performed so far, oldest first.
\<close>

definition log :: "event \<Rightarrow> world \<Rightarrow> world" where
  "log e w = w\<lparr>trace := trace w @ [e]\<rparr>"

text \<open>\<^verbatim>\<open>tempfile.mkstemp(suffix=...)\<close>: the first proposed name that does not exist is
  created empty (\<^verbatim>\<open>O_EXCL\<close>); when every proposal exists, \<^verbatim>\<open>FileExistsError\<close>.
  The descriptor is closed at once by the source (\<^verbatim>\<open>os.close(fd)\<close>).\<close>

fun first_unused ::
  "(path \<rightharpoonup> byte list) \<Rightarrow> string \<Rightarrow> string list \<Rightarrow> (path \<times> string list) option" where
  "first_unused fs suffix [] = None"
| "first_unused fs suffix (c # cs) =
     (if fs (c @ suffix) = None then Some (c @ suffix, cs) else first_unused fs suffix cs)"

definition mkstemp :: "world \<Rightarrow> string \<Rightarrow> (error + path) \<times> world" where
  "mkstemp w suffix =
     (case first_unused (files w) suffix (tmp_candidates w) of
        None \<Rightarrow> (Inl FileExistsError, w\<lparr>tmp_candidates := []\<rparr>)
      | Some (p, rest) \<Rightarrow>
          (Inr p, log (Mkstemp p) (w\<lparr>files := (files w)(p \<mapsto> []), tmp_candidates := rest\<rparr>)))"

text \<open>\<^verbatim>\<open>os.remove(p)\<close>: \<^verbatim>\<open>OSError\<close> when the file is missing or cannot be deleted.\<close>

definition os_remove :: "world \<Rightarrow> path \<Rightarrow> (error + unit) \<times> world" where
  "os_remove w p =
     (if files w p \<noteq> None \<and> \<not> undeletable w p
      then (Inr (), log (Remove p) (w\<lparr>files := (files w)(p := None)\<rparr>))
      else (Inl OSError, log (Remove p) w))"

text \<open>\<^verbatim>\<open>with open(p, "r", encoding="utf-8", errors=h) as f: f.read()\<close>.\<close>

definition read_text :: "world \<Rightarrow> path \<Rightarrow> errors \<Rightarrow> (error + unicode) \<times> world" where
  "read_text w p h =
     (case files w p of
        None \<Rightarrow> (Inl (FileNotFoundError p), log (Open p) w)
      | Some bs \<Rightarrow> (map_sum id translate_newlines (utf8_decode h bs), log (Open p) w))"

text \<open>\<^verbatim>\<open>subprocess.run(argv, stdout=PIPE, stderr=PIPE, text=True)\<close>. With
  \<^verbatim>\<open>text=True\<close> both captured streams are decoded after the process has exited, with
  the locale's encoding (taken to be UTF-8) and the default handler \<^verbatim>\<open>strict\<close>,
  standard output first, and their newlines are translated. A stream that does not
  decode raises \<^verbatim>\<open>UnicodeDecodeError\<close>; what the process did to the file system
  stays done.\<close>

definition subprocess_run :: "world \<Rightarrow> string list \<Rightarrow> (error + completed_process) \<times> world" where
  "subprocess_run w argv =
     (case run_tool w argv (files w) of
        Cannot_start e \<Rightarrow> (Inl e, log (Spawn argv) w)
      | Exited rc out err fs \<Rightarrow>
          (case utf8_decode Strict out of
             Inl e \<Rightarrow> (Inl e, log (Spawn argv) (w\<lparr>files := fs\<rparr>))
           | Inr out_text \<Rightarrow>
               (case utf8_decode Strict err of
                  Inl e \<Rightarrow> (Inl e, log (Spawn argv) (w\<lparr>files := fs\<rparr>))
                | Inr err_text \<Rightarrow>
                    (Inr \<lparr> returncode = rc, stdout = translate_newlines out_text,
                           stderr = translate_newlines err_text \<rparr>,
                     log (Spawn argv) (w\<lparr>files := fs\<rparr>)))))"

subsection \<open>OpenCV and NumPy\<close>

datatype interpolation = INTER_NEAREST | INTER_LINEAR | INTER_CUBIC | INTER_AREA
datatype border_mode = BORDER_CONSTANT | BORDER_REPLICATE | BORDER_REFLECT | BORDER_WRAP

definition THRESH_BINARY :: nat where "THRESH_BINARY = 0"
definition THRESH_OTSU :: nat where "THRESH_OTSU = 8"

text \<open>The library functions the source calls, with the arguments in the source's order.
  \<open>imdecode\<close> is the decoder behind \<^verbatim>\<open>cv2.imread(path, IMREAD_GRAYSCALE)\<close>; \<open>imencode_png\<close>
  the encoder behind \<^verbatim>\<open>cv2.imwrite\<close> of a \<^verbatim>\<open>.png\<close>. \<open>minAreaRect\<close> returns centre,
  size and angle; \<open>threshold\<close> returns the threshold used and the image.\<close>

record cv2 =
  imdecode :: "byte list \<Rightarrow> image option"
  imencode_png :: "image \<Rightarrow> byte list"
  GaussianBlur :: "image \<Rightarrow> nat \<times> nat \<Rightarrow> real \<Rightarrow> image"
  threshold :: "image \<Rightarrow> real \<Rightarrow> real \<Rightarrow> nat \<Rightarrow> real \<times> image"
  minAreaRect :: "(nat \<times> nat) list \<Rightarrow> (real \<times> real) \<times> (real \<times> real) \<times> real"
  getRotationMatrix2D :: "real \<times> real \<Rightarrow> real \<Rightarrow> real \<Rightarrow> real list list"
  warpAffine ::
    "image \<Rightarrow> real list list \<Rightarrow> nat \<times> nat \<Rightarrow> interpolation \<Rightarrow> border_mode \<Rightarrow> image"

definition imread :: "cv2 \<Rightarrow> world \<Rightarrow> path \<Rightarrow> image option \<times> world" where
  "imread cv w p =
     (case files w p of
        None \<Rightarrow> (None, log (Imread p) w)
      | Some bs \<Rightarrow> (imdecode cv bs, log (Imread p) w))"

definition imwrite :: "cv2 \<Rightarrow> world \<Rightarrow> path \<Rightarrow> image \<Rightarrow> world" where
  "imwrite cv w p img = log (Imwrite p) (w\<lparr>files := (files w)(p \<mapsto> imencode_png cv img)\<rparr>)"

text \<open>\<^verbatim>\<open>np.column_stack(np.where(thresh > 0))\<close>: the (row, column) pairs of the non-zero
  pixels, in row-major order.\<close>

definition np_where_gt0 :: "image \<Rightarrow> (nat \<times> nat) list" where
  "np_where_gt0 img =
     concat (map (\<lambda>(r, row). map (\<lambda>(c, v). (r, c)) (filter (\<lambda>(c, v). v > 0) (enumerate 0 row)))
                 (enumerate 0 img))"

text \<open>\<^verbatim>\<open>thresh.shape[:2]\<close>: rows, columns.\<close>

definition shape :: "image \<Rightarrow> nat \<times> nat" where
  "shape img = (length img, (case img of [] \<Rightarrow> 0 | row # _ \<Rightarrow> length row))"

subsection \<open>ExternalOCREngine\<close>

record ocr_engine =
  engine :: string
  language :: string

definition engine_available :: "ocr_engine \<Rightarrow> world \<Rightarrow> bool" where
  "engine_available self w \<longleftrightarrow> on_path w (engine self)"

text \<open>Lines 44-45: the blurred image and its Otsu binarisation.\<close>

definition binarize :: "cv2 \<Rightarrow> image \<Rightarrow> image" where
  "binarize cv img =
     snd (threshold cv (GaussianBlur cv img (3, 3) 0) 0 255 (THRESH_BINARY + THRESH_OTSU))"

text \<open>Lines 51-54: the correction angle from the rectangle's angle.\<close>

definition correction_angle :: "real \<Rightarrow> real" where
  "correction_angle angle = (if angle < - 45 then - (90 + angle) else - angle)"

text \<open>\<^verbatim>\<open>_preprocess_image\<close>. The calls of \<^verbatim>\<open>minAreaRect\<close> and \<^verbatim>\<open>warpAffine\<close>
  are recorded in the trace, so that a run in which they are skipped can be told from one
  in which they are made.\<close>

definition preprocess_image :: "cv2 \<Rightarrow> world \<Rightarrow> path \<Rightarrow> (error + image) \<times> world" where
  "preprocess_image cv w img_path =
     (case imread cv w img_path of
        (None, w1) \<Rightarrow> (Inl (ValueError ''Invalid image file''), w1)
      | (Some img, w1) \<Rightarrow>
          (let thresh = binarize cv img;
               coords = np_where_gt0 thresh
           in if length coords > 0 then
                (let angle = correction_angle (snd (snd (minAreaRect cv coords)));
                     (h, wd) = shape thresh;
                     M = getRotationMatrix2D cv (real (wd div 2), real (h div 2)) angle 1
                 in (Inr (warpAffine cv thresh M (wd, h) INTER_CUBIC BORDER_REPLICATE),
                     log WarpAffine (log MinAreaRect w1)))
              else (Inr thresh, w1)))"

definition save_temp_png :: "cv2 \<Rightarrow> world \<Rightarrow> path \<Rightarrow> (error + path) \<times> world" where
  "save_temp_png cv w img_path =
     (case preprocess_image cv w img_path of
        (Inl e, w1) \<Rightarrow> (Inl e, w1)
      | (Inr thresh, w1) \<Rightarrow>
          (case mkstemp w1 ''.png'' of
             (Inl e, w2) \<Rightarrow> (Inl e, w2)
           | (Inr tmp, w2) \<Rightarrow> (Inr tmp, imwrite cv w2 tmp thresh)))"

text \<open>The body of the outer \<^verbatim>\<open>try\<close> of \<^verbatim>\<open>recognize\<close> (lines 79-103). In the
  cuneiform branch the inner \<^verbatim>\<open>try\<close>/\<^verbatim>\<open>finally\<close> starts after \<^verbatim>\<open>subprocess.run\<close>
  has returned: it covers reading the output file, and its \<^verbatim>\<open>finally\<close> removes
  the file, an \<^verbatim>\<open>OSError\<close> of the removal being dropped.\<close>

definition dispatch :: "ocr_engine \<Rightarrow> world \<Rightarrow> path \<Rightarrow> (error + unicode) \<times> world" where
  "dispatch self w tmp_img =
     (if engine self = ''gocr'' then
        (case subprocess_run w [engine self, tmp_img] of
           (Inl e, w1) \<Rightarrow> (Inl e, w1)
         | (Inr proc, w1) \<Rightarrow> (Inr (strip (stdout proc)), w1))
      else if engine self = ''cuneiform'' then
        (case mkstemp w ''.txt'' of
           (Inl e, w1) \<Rightarrow> (Inl e, w1)
         | (Inr out_path, w1) \<Rightarrow>
             (case subprocess_run w1
                     [engine self, ''-l'', language self, ''-f'', ''text'', ''-o'', out_path, tmp_img] of
                (Inl e, w2) \<Rightarrow> (Inl e, w2)
              | (Inr proc, w2) \<Rightarrow>
                  (let (r, w3) = read_text w2 out_path Ignore;
                       (_, w4) = os_remove w3 out_path
                   in (map_sum id strip r, w4))))
      else (Inl (ValueError (''Unsupported engine: '' @ engine self)), w))"

text \<open>\<^verbatim>\<open>recognize\<close>: the availability check, the temporary PNG, the dispatch, and the
  outer \<^verbatim>\<open>finally\<close> that removes the PNG and drops an \<^verbatim>\<open>OSError\<close> of the removal.
  The value returned on success is \<^verbatim>\<open>text\<close>.\<close>

definition recognize :: "ocr_engine \<Rightarrow> cv2 \<Rightarrow> world \<Rightarrow> path \<Rightarrow> (error + unicode) \<times> world" where
  "recognize self cv w img_path =
     (if \<not> engine_available self w then
        (Inl (FileNotFoundError
               (''Engine '' @ [CHR 0x27] @ engine self @ [CHR 0x27]
                  @ '' not found in PATH. Install it or choose another engine.'')), w)
      else
        (case save_temp_png cv w img_path of
           (Inl e, w1) \<Rightarrow> (Inl e, w1)
         | (Inr tmp_img, w1) \<Rightarrow>
             (let (r, w2) = dispatch self w1 tmp_img;
                  (_, w3) = os_remove w2 tmp_img
              in (r, w3))))"

subsection \<open>Properties of rasters\<close>




subsection \<open>Test doubles\<close>

text \<open>A small image library and small worlds for running the model on concrete inputs,
  after the scenarios of the specification's testable properties (a stubbed gocr that
  prints \<^verbatim>\<open>HELLO\<close>, a stubbed cuneiform that writes its output file).

  The stub library reads a file as a one-row image of its bytes. It smooths each row
  with the kernel 1-2-1 (border reflected, rounded), thresholds by Otsu's method in exact
  arithmetic, reports a rectangle at the angle it is built with, and keeps centre, angle
  and scale of a rotation in the matrix. Its warp
  returns the source for a rotation by zero at scale one into the source's own size;
  otherwise it fills the requested size, reads the source at the coordinates divided by
  the scale, outside the source according to the border mode, and, once the angle is not
  zero and unless the interpolation is nearest-neighbour, replaces every pixel but the
  centre by a rounded mean of the pixel and its right-hand neighbour (weights 1 and 1 for
  linear interpolation, 3 and 1 otherwise).\<close>

definition smooth_row :: "nat list \<Rightarrow> nat list" where
  "smooth_row xs =
     (let n = length xs in
      map (\<lambda>i. let l = (if i = 0 then (if 1 < n then xs ! 1 else xs ! 0) else xs ! (i - 1));
                   r = (if i + 1 < n then xs ! (i + 1)
                        else if 1 < n then xs ! (n - 2) else xs ! 0)
               in (l + 2 * (xs ! i) + r + 2) div 4) [0..<n])"

definition stub_GaussianBlur :: "image \<Rightarrow> nat \<times> nat \<Rightarrow> real \<Rightarrow> image" where
  "stub_GaussianBlur img ksize sigma = (if ksize = (3, 3) then map smooth_row img else img)"

text \<open>The between-class variance of the split at \<open>t\<close>, up to a constant factor, as a
  fraction (numerator, denominator); zero when one class is empty.\<close>

definition otsu_score :: "nat list \<Rightarrow> nat \<Rightarrow> nat \<times> nat" where
  "otsu_score px t =
     (let lo = filter (\<lambda>v. v \<le> t) px; hi = filter (\<lambda>v. t < v) px;
          n0 = length lo; n1 = length hi
      in if n0 = 0 \<or> n1 = 0 then (0, 1)
         else ((sum_list hi * n0 - sum_list lo * n1)\<^sup>2, n0 * n1))"

text \<open>The least threshold of greatest score, 0 when every score is zero. The score only
  changes at the values that occur in the image, so these are the thresholds tried.\<close>

definition otsu :: "nat list \<Rightarrow> nat" where
  "otsu px =
     fst (fold (\<lambda>t (best, num, den).
                  (let (num', den') = otsu_score px t
                   in if num * den' < num' * den \<or> (num * den' = num' * den \<and> 0 < num' \<and> t < best)
                      then (t, num', den') else (best, num, den)))
               px (0, 0, 1))"

definition stub_threshold :: "image \<Rightarrow> real \<Rightarrow> real \<Rightarrow> nat \<Rightarrow> real \<times> image" where
  "stub_threshold img t maxval flags =
     (let t' = (if flags = THRESH_BINARY + THRESH_OTSU then real (otsu (concat img)) else t)
      in (t', map (map (\<lambda>v. if t' < real v then nat \<lfloor>maxval\<rfloor> else 0)) img))"

definition stub_getRotationMatrix2D :: "real \<times> real \<Rightarrow> real \<Rightarrow> real \<Rightarrow> real list list" where
  "stub_getRotationMatrix2D c a s = [[s, a, fst c], [- a, s, snd c]]"

definition entry :: "real list list \<Rightarrow> nat \<Rightarrow> nat \<Rightarrow> real" where
  "entry M i j = (if i < length M \<and> j < length (M ! i) then M ! i ! j else 0)"

definition stub_pixel :: "image \<Rightarrow> border_mode \<Rightarrow> nat \<Rightarrow> nat \<Rightarrow> nat" where
  "stub_pixel src border x y =
     (if y < length src \<and> x < length (src ! y) then src ! y ! x
      else if border = BORDER_REPLICATE \<and> src \<noteq> [] \<and> src ! (min y (length src - 1)) \<noteq> [] then
        (let row = src ! (min y (length src - 1)) in row ! (min x (length row - 1)))
      else 0)"

definition stub_warpAffine ::
  "image \<Rightarrow> real list list \<Rightarrow> nat \<times> nat \<Rightarrow> interpolation \<Rightarrow> border_mode \<Rightarrow> image" where
  "stub_warpAffine src M dsize flags border =
     (if entry M 0 1 = 0 \<and> entry M 0 0 = 1 \<and> (snd dsize, fst dsize) = shape src then src
      else map (\<lambda>y. map (\<lambda>x.
                 (let sx = nat \<lfloor>real x / entry M 0 0\<rfloor>; sy = nat \<lfloor>real y / entry M 0 0\<rfloor>
                  in if entry M 0 1 = 0 \<or> flags = INTER_NEAREST
                        \<or> (real x = entry M 0 2 \<and> real y = entry M 1 2)
                     then stub_pixel src border sx sy
                     else if flags = INTER_LINEAR
                     then (stub_pixel src border sx sy + stub_pixel src border (sx + 1) sy + 1)
                            div 2
                     else (3 * stub_pixel src border sx sy + stub_pixel src border (sx + 1) sy
                            + 2) div 4))
               [0..<fst dsize]) [0..<snd dsize])"

definition stub_cv2_reporting :: "real \<Rightarrow> cv2" where
  "stub_cv2_reporting rect_angle =
     \<lparr> imdecode = (\<lambda>bs. if bs = [] then None else Some [bs]),
       imencode_png = concat,
       GaussianBlur = stub_GaussianBlur,
       threshold = stub_threshold,
       minAreaRect = (\<lambda>pts. ((0, 0), (0, 0), rect_angle)),
       getRotationMatrix2D = stub_getRotationMatrix2D,
       warpAffine = stub_warpAffine \<rparr>"

text \<open>The stub library whose rectangles are at -60 degrees, so that the correction is a
  rotation by -30 degrees.\<close>

definition stub_cv2 :: cv2 where
  "stub_cv2 = stub_cv2_reporting (- 60)"

definition stub_world ::
  "string list \<Rightarrow> (string list \<Rightarrow> (path \<rightharpoonup> byte list) \<Rightarrow> run_outcome) \<Rightarrow> world" where
  "stub_world installed tool =
     \<lparr> on_path = (\<lambda>name. name \<in> set installed),
       files = [''page.png'' \<mapsto> [255, 255, 0, 0, 255, 255], ''blank.png'' \<mapsto> [255, 255, 255],
                ''black.png'' \<mapsto> [0, 0, 0], ''bar.png'' \<mapsto> [0, 255, 0], ''notes.txt'' \<mapsto> []],
       undeletable = (\<lambda>p. False),
       tmp_candidates = [''/tmp/tmpa'', ''/tmp/tmpb''],
       run_tool = tool,
       trace = [] \<rparr>"

text \<open>A gocr that prints \<^verbatim>\<open>" HELLO\n"\<close>, warns on the error stream and exits with 1.\<close>

definition gocr_prints_hello :: "string list \<Rightarrow> (path \<rightharpoonup> byte list) \<Rightarrow> run_outcome" where
  "gocr_prints_hello argv fs = Exited 1 [32, 72, 69, 76, 76, 79, 10] [119, 97, 114, 110] fs"

text \<open>A gocr that prints \<^verbatim>\<open>HELLO\<close>, writes the byte FF to the error stream and exits
  with 0.\<close>

definition gocr_warns_in_latin1 :: "string list \<Rightarrow> (path \<rightharpoonup> byte list) \<Rightarrow> run_outcome" where
  "gocr_warns_in_latin1 argv fs = Exited 0 [72, 69, 76, 76, 79] [255] fs"

text \<open>A cuneiform that writes the given bytes to the path after \<^verbatim>\<open>-o\<close> and the given
  bytes to its standard output.\<close>

definition cuneiform_writes_and_prints ::
  "byte list \<Rightarrow> byte list \<Rightarrow> string list \<Rightarrow> (path \<rightharpoonup> byte list) \<Rightarrow> run_outcome" where
  "cuneiform_writes_and_prints bs out_bytes argv fs =
     (case argv of
        [exe, l, lang, f, fmt, out, out_path, img] \<Rightarrow> Exited 0 out_bytes [] (fs(out_path \<mapsto> bs))
      | _ \<Rightarrow> Exited 2 out_bytes [] fs)"

definition cuneiform_writes ::
  "byte list \<Rightarrow> string list \<Rightarrow> (path \<rightharpoonup> byte list) \<Rightarrow> run_outcome" where
  "cuneiform_writes bs = cuneiform_writes_and_prints bs []"

text \<open>A cuneiform that exits without leaving an output file.\<close>

definition cuneiform_writes_nothing ::
  "string list \<Rightarrow> (path \<rightharpoonup> byte list) \<Rightarrow> run_outcome" where
  "cuneiform_writes_nothing argv fs =
     (case argv of
        [exe, l, lang, f, fmt, out, out_path, img] \<Rightarrow> Exited 1 [] [] (fs(out_path := None))
      | _ \<Rightarrow> Exited 2 [] [] fs)"

text \<open>An executable that is found on the search path and cannot be started.\<close>

definition tool_cannot_start :: "string list \<Rightarrow> (path \<rightharpoonup> byte list) \<Rightarrow> run_outcome" where
  "tool_cannot_start argv fs = Cannot_start OSError"

section \<open>Properties\<close>

lemmas world_ops = log_def mkstemp_def os_remove_def read_text_def subprocess_run_def
  imread_def imwrite_def
lemmas engine_ops = engine_available_def correction_angle_def
  preprocess_image_def save_temp_png_def dispatch_def recognize_def
lemmas stub_library = stub_GaussianBlur_def smooth_row_def stub_threshold_def
  otsu_def otsu_score_def stub_getRotationMatrix2D_def stub_warpAffine_def stub_pixel_def
  entry_def upt_rec
lemmas stub_tools = gocr_prints_hello_def gocr_warns_in_latin1_def
  cuneiform_writes_def cuneiform_writes_and_prints_def cuneiform_writes_nothing_def
  tool_cannot_start_def
lemmas array_ops = np_where_gt0_def shape_def enumerate_eq_zip THRESH_BINARY_def THRESH_OTSU_def
lemmas text_ops = strip_def isspace_def is_continuation_def

subsection \<open>The stub library on the stub pages\<close>

lemma stub_cv2_fields:
  "imdecode (stub_cv2_reporting a) bs = (if bs = [] then None else Some [bs])"
  "imencode_png (stub_cv2_reporting a) = concat"
  "GaussianBlur (stub_cv2_reporting a) = stub_GaussianBlur"
  "threshold (stub_cv2_reporting a) = stub_threshold"
  "minAreaRect (stub_cv2_reporting a) pts = ((0, 0), (0, 0), a)"
  "getRotationMatrix2D (stub_cv2_reporting a) = stub_getRotationMatrix2D"
  "warpAffine (stub_cv2_reporting a) = stub_warpAffine"
  by (simp_all add: stub_cv2_reporting_def)

lemma stub_world_fields:
  "on_path (stub_world inst tool) name \<longleftrightarrow> name \<in> set inst"
  "files (stub_world inst tool) ''page.png'' = Some [255, 255, 0, 0, 255, 255]"
  "files (stub_world inst tool) ''blank.png'' = Some [255, 255, 255]"
  "files (stub_world inst tool) ''black.png'' = Some [0, 0, 0]"
  "files (stub_world inst tool) ''bar.png'' = Some [0, 255, 0]"
  "files (stub_world inst tool) ''notes.txt'' = Some []"
  "files (stub_world inst tool) ''/tmp/tmpa.png'' = None"
  "files (stub_world inst tool) ''/tmp/tmpb.txt'' = None"
  "undeletable (stub_world inst tool) p = False"
  "tmp_candidates (stub_world inst tool) = [''/tmp/tmpa'', ''/tmp/tmpb'']"
  "run_tool (stub_world inst tool) = tool"
  "trace (stub_world inst tool) = []"
  by (simp_all add: stub_world_def)

lemma stub_binarize_page:
  "binarize (stub_cv2_reporting a) [[255, 255, 0, 0, 255, 255]] = [[255, 255, 0, 0, 255, 255]]"
  by (simp add: binarize_def stub_cv2_fields stub_library array_ops)




lemma stub_coords:
  "np_where_gt0 [[255, 255, 0, 0, 255, 255]] = [(0, 0), (0, 1), (0, 4), (0, 5)]"
  "np_where_gt0 [[255, 255, 255]] = [(0, 0), (0, 1), (0, 2)]"
  "np_where_gt0 [[0, 0, 0]] = []"
  by (simp_all add: array_ops)

lemma stub_shapes:
  "shape [[255, 255, 0, 0, 255, 255]] = (1, 6)"
  "shape [[255, 255, 255]] = (1, 3)"
  "shape [[0, 255, 0]] = (1, 3)"
  by (simp_all add: shape_def)

lemma upt_small: "[0..<1] = [0]" "[0..<6] = [0, 1, 2, 3, 4, 5]"
  by (simp_all add: upt_rec)

lemma stub_warp_page:
  "stub_warpAffine [[255, 255, 0, 0, 255, 255]] [[1, - 30, 3], [30, 1, 0]] (6, Suc 0)
     INTER_CUBIC BORDER_REPLICATE = [[255, 191, 0, 0, 255, 255]]"
  by (simp add: stub_warpAffine_def stub_pixel_def entry_def shape_def upt_small)

lemma stub_preprocess_page:
  "preprocess_image stub_cv2 (stub_world inst tool) ''page.png''
     = (Inr [[255, 191, 0, 0, 255, 255]],
        log WarpAffine (log MinAreaRect (log (Imread ''page.png'') (stub_world inst tool))))"
  by (simp add: stub_cv2_def preprocess_image_def imread_def stub_world_fields stub_cv2_fields
      stub_binarize_page stub_coords correction_angle_def stub_shapes
      stub_getRotationMatrix2D_def stub_warp_page)

lemma stub_cv2_png: "imencode_png stub_cv2 = concat"
  by (simp add: stub_cv2_def stub_cv2_fields)

text \<open>In the stub world the temporary PNG gets the first proposed name.\<close>

lemma stub_save_temp_png:
  "fst (save_temp_png stub_cv2 (stub_world inst tool) ''page.png'') = Inr ''/tmp/tmpa.png''"
  "trace (snd (save_temp_png stub_cv2 (stub_world inst tool) ''page.png''))
     = [Imread ''page.png'', MinAreaRect, WarpAffine, Mkstemp ''/tmp/tmpa.png'',
        Imwrite ''/tmp/tmpa.png'']"
  "tmp_candidates (snd (save_temp_png stub_cv2 (stub_world inst tool) ''page.png''))
     = [''/tmp/tmpb'']"
  "files (snd (save_temp_png stub_cv2 (stub_world inst tool) ''page.png'')) ''/tmp/tmpb.txt'' = None"
  "files (snd (save_temp_png stub_cv2 (stub_world inst tool) ''page.png'')) ''/tmp/tmpa.png''
     = Some [255, 191, 0, 0, 255, 255]"
  "run_tool (snd (save_temp_png stub_cv2 (stub_world inst tool) ''page.png'')) = tool"
  "undeletable (snd (save_temp_png stub_cv2 (stub_world inst tool) ''page.png'')) p = False"
  by (simp_all add: save_temp_png_def stub_preprocess_page mkstemp_def imwrite_def log_def
      stub_world_fields stub_cv2_png)

lemma stub_save_temp_png_pair:
  "save_temp_png stub_cv2 (stub_world inst tool) ''page.png''
     = (Inr ''/tmp/tmpa.png'', snd (save_temp_png stub_cv2 (stub_world inst tool) ''page.png''))"
  using stub_save_temp_png(1) [of inst tool] by (simp add: prod_eq_iff)

lemmas stub_run = recognize_def dispatch_def subprocess_run_def read_text_def os_remove_def
  mkstemp_def log_def engine_available_def split_beta stub_world_fields stub_save_temp_png
  stub_tools

subsection \<open>Trimming\<close>




subsection \<open>The availability check comes first\<close>

text \<open>
  Claim C3. When the engine's executable is not on the search path
  (\<open>engine_available\<close> is false), \<open>recognize\<close> raises \<^verbatim>\<open>FileNotFoundError\<close> (the
  specification's EngineNotFoundError) and leaves the world as it found it: the file
  system is the same, so no temporary file exists, and the trace is the same, so no
  image was read, no name was allocated and no process was run.
\<close>

theorem recognize_engine_not_found:
  assumes "\<not> engine_available self w"
  shows "\<exists>msg. recognize self cv w img_path = (Inl (FileNotFoundError msg), w)"
  using assms by (simp add: recognize_def)

theorem recognize_engine_not_found_witness:
  "\<not> engine_available \<lparr>engine = ''gocr'', language = ''eng''\<rparr>
       (stub_world [''cuneiform''] gocr_prints_hello)
   \<and> (\<exists>msg. recognize \<lparr>engine = ''gocr'', language = ''eng''\<rparr> stub_cv2
          (stub_world [''cuneiform''] gocr_prints_hello) ''page.png''
        = (Inl (FileNotFoundError msg), stub_world [''cuneiform''] gocr_prints_hello))"
proof -
  have h: "\<not> engine_available \<lparr>engine = ''gocr'', language = ''eng''\<rparr>
             (stub_world [''cuneiform''] gocr_prints_hello)"
    by (simp add: engine_available_def stub_world_def)
  show ?thesis using h recognize_engine_not_found [OF h] by blast
qed

subsection \<open>An image that does not decode\<close>

text \<open>
  Claim C10. With the engine available, a source path that does not decode (the file is
  missing or \<^verbatim>\<open>imread\<close> returns \<^verbatim>\<open>None\<close>) makes \<open>recognize\<close> raise
  \<^verbatim>\<open>ValueError("Invalid image file")\<close>, the specification's InvalidImageError. The only
  operation performed is the read: the file system and the temporary-name generator are
  untouched, so no temporary file was allocated and nothing is left to clean up.
\<close>

theorem recognize_invalid_image:
  assumes "engine_available self w" and "fst (imread cv w img_path) = None"
  shows "recognize self cv w img_path
           = (Inl (ValueError ''Invalid image file''), log (Imread img_path) w)
       \<and> files (snd (recognize self cv w img_path)) = files w
       \<and> tmp_candidates (snd (recognize self cv w img_path)) = tmp_candidates w
       \<and> trace (snd (recognize self cv w img_path)) = trace w @ [Imread img_path]"
  using assms
  by (auto simp: recognize_def save_temp_png_def preprocess_image_def imread_def log_def
      split: option.splits)

theorem recognize_invalid_image_witness:
  "recognize \<lparr>engine = ''gocr'', language = ''eng''\<rparr> stub_cv2
      (stub_world [''gocr''] gocr_prints_hello) ''notes.txt''
    = (Inl (ValueError ''Invalid image file''),
       log (Imread ''notes.txt'') (stub_world [''gocr''] gocr_prints_hello))
   \<and> trace (snd (recognize \<lparr>engine = ''gocr'', language = ''eng''\<rparr> stub_cv2
      (stub_world [''gocr''] gocr_prints_hello) ''notes.txt'')) = [Imread ''notes.txt'']"
proof -
  have a: "engine_available \<lparr>engine = ''gocr'', language = ''eng''\<rparr>
             (stub_world [''gocr''] gocr_prints_hello)"
    by (simp add: engine_available_def stub_world_def)
  have b: "fst (imread stub_cv2 (stub_world [''gocr''] gocr_prints_hello) ''notes.txt'') = None"
    by (simp add: imread_def stub_world_fields stub_cv2_def stub_cv2_fields)
  have c: "trace (stub_world [''gocr''] gocr_prints_hello) = []"
    by (simp add: stub_world_def)
  show ?thesis using recognize_invalid_image [OF a b] c by (simp add: log_def)
qed

subsection \<open>Running the external tool\<close>

lemma save_temp_png_keeps_tools:
  "save_temp_png cv w p = (r, w1) \<Longrightarrow> run_tool w1 = run_tool w \<and> undeletable w1 = undeletable w"
  by (auto simp: save_temp_png_def preprocess_image_def imread_def imwrite_def mkstemp_def log_def
      Let_def split: option.splits prod.splits sum.splits if_splits)

lemma mkstemp_keeps_tools:
  "mkstemp w sfx = (r, w') \<Longrightarrow> run_tool w' = run_tool w \<and> undeletable w' = undeletable w"
  by (auto simp: mkstemp_def log_def split: option.splits)

text \<open>Whatever the outcome, a run adds one event and leaves the tools as they are.\<close>

lemma subprocess_run_trace:
  "trace (snd (subprocess_run w argv)) = trace w @ [Spawn argv]"
  "undeletable (snd (subprocess_run w argv)) = undeletable w"
  by (simp_all add: subprocess_run_def log_def split: run_outcome.splits sum.splits)

text \<open>\<^verbatim>\<open>subprocess.run\<close> returns exactly when the process started and both streams
  decode.\<close>

lemma subprocess_run_returns:
  "subprocess_run w argv = (Inr proc, w') \<longleftrightarrow>
     (\<exists>rc out err fs out_text err_text.
        run_tool w argv (files w) = Exited rc out err fs
      \<and> utf8_decode Strict out = Inr out_text \<and> utf8_decode Strict err = Inr err_text
      \<and> proc = \<lparr> returncode = rc, stdout = translate_newlines out_text,
                  stderr = translate_newlines err_text \<rparr>
      \<and> w' = log (Spawn argv) (w\<lparr>files := fs\<rparr>))"
  by (auto simp: subprocess_run_def split: run_outcome.splits sum.splits)

subsection \<open>The gocr protocol\<close>




subsection \<open>The cuneiform protocol\<close>

text \<open>With the handler \<open>Ignore\<close> the decoder never raises, and on well-formed input it
  returns what the strict decoder returns.\<close>

lemma utf8_decode_ignore_total: "\<exists>t. utf8_decode Ignore bs = Inr t"
proof (induction "length bs" arbitrary: bs rule: less_induct)
  case less
  show ?case
  proof (cases bs)
    case Nil
    then show ?thesis by simp
  next
    case (Cons b rest)
    have ih: "\<exists>t. utf8_decode Ignore (drop k rest) = Inr t" for k
      using less [of "drop k rest"] Cons by simp
    show ?thesis
    proof (cases "utf8_next b rest")
      case (Decoded c n)
      from ih [of "n - 1"] obtain t where "utf8_decode Ignore (drop (n - 1) rest) = Inr t" ..
      then show ?thesis using Cons Decoded by simp
    next
      case (Malformed n)
      from ih [of "n - 1"] obtain t where "utf8_decode Ignore (drop (n - 1) rest) = Inr t" ..
      then show ?thesis using Cons Malformed by simp
    qed
  qed
qed

lemma utf8_decode_ignore_strict:
  "utf8_decode Strict bs = Inr t \<Longrightarrow> utf8_decode Ignore bs = Inr t"
proof (induction "length bs" arbitrary: bs t rule: less_induct)
  case less
  show ?case
  proof (cases bs)
    case Nil
    then show ?thesis using less.prems by simp
  next
    case (Cons b rest)
    show ?thesis
    proof (cases "utf8_next b rest")
      case (Decoded c n)
      from less.prems Cons Decoded obtain u
        where u: "utf8_decode Strict (drop (n - 1) rest) = Inr u" and t: "t = c # u"
        by (cases "utf8_decode Strict (drop (n - 1) rest)") auto
      have "utf8_decode Ignore (drop (n - 1) rest) = Inr u"
        using less.hyps [of "drop (n - 1) rest" u] u Cons by simp
      then show ?thesis using Cons Decoded t by simp
    next
      case (Malformed n)
      then show ?thesis using less.prems Cons by simp
    qed
  qed
qed

text \<open>What reading and removing a file do to the world.\<close>

lemma read_text_world:
  "trace (snd (read_text w p h)) = trace w @ [Open p]"
  "files (snd (read_text w p h)) = files w"
  "undeletable (snd (read_text w p h)) = undeletable w"
  by (simp_all add: read_text_def log_def split: option.splits)

lemma read_text_ignore:
  "fst (read_text w p Ignore)
     = (case files w p of
          None \<Rightarrow> Inl (FileNotFoundError p)
        | Some bs \<Rightarrow> map_sum id translate_newlines (utf8_decode Ignore bs))"
  by (simp add: read_text_def split: option.splits)

lemma os_remove_world:
  "trace (snd (os_remove w p)) = trace w @ [Remove p]"
  "undeletable (snd (os_remove w p)) = undeletable w"
  "\<not> undeletable w p \<Longrightarrow> files (snd (os_remove w p)) p = None"
  "files w q = None \<Longrightarrow> files (snd (os_remove w p)) q = None"
  "q \<noteq> p \<Longrightarrow> files (snd (os_remove w p)) q = files w q"
  by (auto simp: os_remove_def log_def)

text \<open>
  Claim C5, as amended. In a call with the cuneiform engine that gets as far as the
  invocation (the engine is on the search path, the temporary PNG is at \<open>tmp_img\<close> and
  the output file has been allocated at \<open>out_path\<close>), the command line is
  \<^verbatim>\<open>cuneiform -l <language> -f text -o out_path tmp_img\<close> with the language hint as
  the caller set it. Whenever \<^verbatim>\<open>subprocess.run\<close> returns, the output file is read
  as UTF-8 under the handler \<^verbatim>\<open>errors="ignore"\<close>, newline-translated and trimmed:
  decoding cannot raise, malformed byte sequences are dropped, well-formed content is
  read as it is, and a missing output file raises \<^verbatim>\<open>FileNotFoundError\<close>. In either
  case the removal of the output file follows (the file is gone afterwards unless it
  cannot be deleted), and the removal of the temporary PNG after it.
\<close>

theorem recognize_cuneiform:
  fixes self :: ocr_engine and out_path tmp_img :: path and argv :: "string list"
  defines "argv \<equiv>
    [''cuneiform'', ''-l'', language self, ''-f'', ''text'', ''-o'', out_path, tmp_img]"
  assumes "engine self = ''cuneiform''" and "engine_available self w"
    and "save_temp_png cv w img_path = (Inr tmp_img, w1)"
    and "mkstemp w1 ''.txt'' = (Inr out_path, w2)"
  shows "(\<exists>rest. trace (snd (recognize self cv w img_path)) = trace w2 @ Spawn argv # rest)
       \<and> (\<forall>proc w3. subprocess_run w2 argv = (Inr proc, w3) \<longrightarrow>
             trace (snd (recognize self cv w img_path))
               = trace w2 @ [Spawn argv, Open out_path, Remove out_path, Remove tmp_img]
           \<and> (\<not> undeletable w out_path
                \<longrightarrow> files (snd (recognize self cv w img_path)) out_path = None)
           \<and> (files w3 out_path = None
                \<longrightarrow> fst (recognize self cv w img_path) = Inl (FileNotFoundError out_path))
           \<and> (\<forall>bs. files w3 out_path = Some bs \<longrightarrow>
                 (\<exists>t. utf8_decode Ignore bs = Inr t
                    \<and> fst (recognize self cv w img_path) = Inr (strip (translate_newlines t)))
               \<and> (\<forall>t. utf8_decode Strict bs = Inr t
                    \<longrightarrow> fst (recognize self cv w img_path)
                          = Inr (strip (translate_newlines t)))))"
proof -
  have k: "undeletable w2 = undeletable w"
    using save_temp_png_keeps_tools [OF assms(4)] mkstemp_keeps_tools [OF assms(5)] by simp
  obtain r3 w3 where run: "subprocess_run w2 argv = (r3, w3)"
    by (cases "subprocess_run w2 argv")
  have tr3: "trace w3 = trace w2 @ [Spawn argv]" and un3: "undeletable w3 = undeletable w"
    using subprocess_run_trace [of w2 argv] run k by simp_all
  let ?w5 = "snd (os_remove (snd (read_text w3 out_path Ignore)) out_path)"
  have d: "dispatch self w1 tmp_img
             = (case r3 of
                  Inl e \<Rightarrow> (Inl e, w3)
                | Inr proc \<Rightarrow> (map_sum id strip (fst (read_text w3 out_path Ignore)), ?w5))"
    using assms(2,5) run
    by (simp add: dispatch_def split_beta argv_def split: sum.splits)
  have r: "recognize self cv w img_path
             = (fst (dispatch self w1 tmp_img), snd (os_remove (snd (dispatch self w1 tmp_img)) tmp_img))"
    using assms(3,4) by (simp add: recognize_def split: prod.splits)
  have 1: "\<exists>rest. trace (snd (recognize self cv w img_path)) = trace w2 @ Spawn argv # rest"
  proof (cases r3)
    case (Inl e)
    then show ?thesis unfolding r d by (simp add: os_remove_world tr3)
  next
    case (Inr proc)
    then show ?thesis unfolding r d by (simp add: os_remove_world read_text_world tr3)
  qed
  have 2: "trace (snd (recognize self cv w img_path))
               = trace w2 @ [Spawn argv, Open out_path, Remove out_path, Remove tmp_img]
           \<and> (\<not> undeletable w out_path
                \<longrightarrow> files (snd (recognize self cv w img_path)) out_path = None)
           \<and> (files w3' out_path = None
                \<longrightarrow> fst (recognize self cv w img_path) = Inl (FileNotFoundError out_path))
           \<and> (\<forall>bs. files w3' out_path = Some bs \<longrightarrow>
                 (\<exists>t. utf8_decode Ignore bs = Inr t
                    \<and> fst (recognize self cv w img_path) = Inr (strip (translate_newlines t)))
               \<and> (\<forall>t. utf8_decode Strict bs = Inr t
                    \<longrightarrow> fst (recognize self cv w img_path)
                          = Inr (strip (translate_newlines t))))"
    if ret: "subprocess_run w2 argv = (Inr proc, w3')" for proc w3'
  proof -
    have eq: "r3 = Inr proc" "w3' = w3" using ret run by simp_all
    have res: "recognize self cv w img_path
                 = (map_sum id strip (fst (read_text w3 out_path Ignore)),
                    snd (os_remove ?w5 tmp_img))"
      unfolding r d using eq by simp
    have a: "trace (snd (recognize self cv w img_path))
               = trace w2 @ [Spawn argv, Open out_path, Remove out_path, Remove tmp_img]"
      unfolding res by (simp add: os_remove_world read_text_world tr3)
    have b: "files (snd (recognize self cv w img_path)) out_path = None"
      if "\<not> undeletable w out_path"
    proof -
      have "files ?w5 out_path = None"
        using that un3 by (simp add: os_remove_world(3) read_text_world)
      then show ?thesis unfolding res by (simp add: os_remove_world(4))
    qed
    have c: "fst (recognize self cv w img_path) = Inl (FileNotFoundError out_path)"
      if "files w3 out_path = None"
      unfolding res using that by (simp add: read_text_ignore)
    have e: "(\<exists>t. utf8_decode Ignore bs = Inr t
                \<and> fst (recognize self cv w img_path) = Inr (strip (translate_newlines t)))
           \<and> (\<forall>t. utf8_decode Strict bs = Inr t
                \<longrightarrow> fst (recognize self cv w img_path) = Inr (strip (translate_newlines t)))"
      if some: "files w3 out_path = Some bs" for bs
    proof -
      obtain t where t: "utf8_decode Ignore bs = Inr t"
        using utf8_decode_ignore_total by blast
      have f: "fst (recognize self cv w img_path) = Inr (strip (translate_newlines t))"
        unfolding res using some t by (simp add: read_text_ignore)
      show ?thesis using t f utf8_decode_ignore_strict by fastforce
    qed
    show ?thesis unfolding eq(2) using a b c e by blast
  qed
  show ?thesis using 1 2 by blast
qed


theorem recognize_cuneiform_witness:
  "fst (recognize \<lparr>engine = ''cuneiform'', language = ''rus''\<rparr> stub_cv2
          (stub_world [''cuneiform''] (cuneiform_writes [32, 87, 255, 79, 82, 76, 68, 13, 10]))
          ''page.png'') = Inr [87, 79, 82, 76, 68]
   \<and> trace (snd (recognize \<lparr>engine = ''cuneiform'', language = ''rus''\<rparr> stub_cv2
          (stub_world [''cuneiform''] (cuneiform_writes [32, 87, 255, 79, 82, 76, 68, 13, 10]))
          ''page.png''))
      = [Imread ''page.png'', MinAreaRect, WarpAffine, Mkstemp ''/tmp/tmpa.png'',
         Imwrite ''/tmp/tmpa.png'', Mkstemp ''/tmp/tmpb.txt'',
         Spawn [''cuneiform'', ''-l'', ''rus'', ''-f'', ''text'', ''-o'', ''/tmp/tmpb.txt'',
                ''/tmp/tmpa.png''],
         Open ''/tmp/tmpb.txt'', Remove ''/tmp/tmpb.txt'', Remove ''/tmp/tmpa.png'']
   \<and> files (snd (recognize \<lparr>engine = ''cuneiform'', language = ''rus''\<rparr> stub_cv2
          (stub_world [''cuneiform''] (cuneiform_writes [32, 87, 255, 79, 82, 76, 68, 13, 10]))
          ''page.png'')) ''/tmp/tmpb.txt'' = None"
proof -
  let ?self = "\<lparr>engine = ''cuneiform'', language = ''rus''\<rparr>"
  let ?bs = "[32, 87, 255, 79, 82, 76, 68, 13, 10] :: byte list"
  let ?w = "stub_world [''cuneiform''] (cuneiform_writes ?bs)"
  let ?w1 = "snd (save_temp_png stub_cv2 ?w ''page.png'')"
  let ?w2 = "snd (mkstemp ?w1 ''.txt'')"
  let ?argv = "[''cuneiform'', ''-l'', language ?self, ''-f'', ''text'', ''-o'',
                ''/tmp/tmpb.txt'', ''/tmp/tmpa.png'']"
  let ?w3 = "snd (subprocess_run ?w2 ?argv)"
  let ?proc = "\<lparr>returncode = 0, stdout = [], stderr = []\<rparr>"
  have a: "engine ?self = ''cuneiform''" by simp
  have b: "engine_available ?self ?w" by (simp add: engine_available_def stub_world_def)
  have c: "save_temp_png stub_cv2 ?w ''page.png'' = (Inr ''/tmp/tmpa.png'', ?w1)"
    by (rule stub_save_temp_png_pair)
  have d: "mkstemp ?w1 ''.txt'' = (Inr ''/tmp/tmpb.txt'', ?w2)"
    by (simp add: mkstemp_def stub_save_temp_png prod_eq_iff)
  have e: "subprocess_run ?w2 ?argv = (Inr ?proc, ?w3)"
    by (simp add: subprocess_run_def mkstemp_def log_def stub_save_temp_png stub_tools
        prod_eq_iff)
  have f: "files ?w3 ''/tmp/tmpb.txt'' = Some ?bs"
    by (simp add: subprocess_run_def mkstemp_def log_def stub_save_temp_png stub_tools)
  have g: "utf8_decode Ignore ?bs = Inr [32, 87, 79, 82, 76, 68, 13, 10]"
    by (simp add: is_continuation_def)
  have h: "strip (translate_newlines [32, 87, 79, 82, 76, 68, 13, 10]) = [87, 79, 82, 76, 68]"
    by (simp add: strip_def isspace_def)
  have i: "\<not> undeletable ?w ''/tmp/tmpb.txt''"
    by (simp add: stub_world_def)
  have t2: "trace ?w2 = [Imread ''page.png'', MinAreaRect, WarpAffine, Mkstemp ''/tmp/tmpa.png'',
                         Imwrite ''/tmp/tmpa.png'', Mkstemp ''/tmp/tmpb.txt'']"
    by (simp add: mkstemp_def log_def stub_save_temp_png)
  from recognize_cuneiform [OF a b c d] e
  have tr: "trace (snd (recognize ?self stub_cv2 ?w ''page.png''))
              = trace ?w2 @ [Spawn ?argv, Open ''/tmp/tmpb.txt'', Remove ''/tmp/tmpb.txt'',
                             Remove ''/tmp/tmpa.png'']"
    and gone: "\<not> undeletable ?w ''/tmp/tmpb.txt''
                \<longrightarrow> files (snd (recognize ?self stub_cv2 ?w ''page.png'')) ''/tmp/tmpb.txt'' = None"
    and rd: "\<forall>bs. files ?w3 ''/tmp/tmpb.txt'' = Some bs \<longrightarrow>
                (\<exists>t. utf8_decode Ignore bs = Inr t
                   \<and> fst (recognize ?self stub_cv2 ?w ''page.png'')
                       = Inr (strip (translate_newlines t)))"
    by blast+
  from rd f g have "fst (recognize ?self stub_cv2 ?w ''page.png'')
                       = Inr (strip (translate_newlines [32, 87, 79, 82, 76, 68, 13, 10]))"
    by fastforce
  then show ?thesis using tr gone i h t2 by simp
qed

text \<open>
  Claim C5 as stated has malformed byte sequences replaced. The source opens the output
  file with \<^verbatim>\<open>errors="ignore"\<close>: on an output file holding the bytes FF 41 the result
  is the one character \<^verbatim>\<open>A\<close>, where replacing would give U+FFFD followed by \<^verbatim>\<open>A\<close>.
\<close>

theorem recognize_cuneiform_drops_malformed:
  "fst (recognize \<lparr>engine = ''cuneiform'', language = ''eng''\<rparr> stub_cv2
          (stub_world [''cuneiform''] (cuneiform_writes [255, 65])) ''page.png'') = Inr [65]
   \<and> utf8_decode Replace [255, 65] = Inr [65533, 65]"
  by (simp add: stub_run text_ops)

subsection \<open>What recognize returns\<close>

text \<open>A dispatch that succeeds ran one of the two protocols to its end.\<close>

lemma dispatch_success:
  assumes "fst (dispatch self w1 tmp_img) = Inr t"
  shows "(engine self = ''gocr'' \<and>
           (\<exists>rc out err fs out_text.
               run_tool w1 [''gocr'', tmp_img] (files w1) = Exited rc out err fs
             \<and> utf8_decode Strict out = Inr out_text
             \<and> t = strip (translate_newlines out_text)))
       \<or> (engine self = ''cuneiform'' \<and>
           (\<exists>out_path w2 rc out err fs bs u.
               mkstemp w1 ''.txt'' = (Inr out_path, w2)
             \<and> run_tool w2 [''cuneiform'', ''-l'', language self, ''-f'', ''text'', ''-o'',
                             out_path, tmp_img] (files w2) = Exited rc out err fs
             \<and> fs out_path = Some bs \<and> utf8_decode Ignore bs = Inr u
             \<and> t = strip (translate_newlines u)))"
proof (cases "engine self = ''gocr''")
  case True
  obtain r2 w2 where run: "subprocess_run w1 [''gocr'', tmp_img] = (r2, w2)"
    by (cases "subprocess_run w1 [''gocr'', tmp_img]")
  then obtain proc where p: "r2 = Inr proc" "t = strip (stdout proc)"
    using assms True by (cases r2) (auto simp: dispatch_def)
  from run p(1) subprocess_run_returns [of w1 "[''gocr'', tmp_img]" proc w2]
  show ?thesis using True p(2) by auto
next
  case False
  note ng = this
  show ?thesis
  proof (cases "engine self = ''cuneiform''")
    case False
    then show ?thesis using assms ng by (simp add: dispatch_def)
  next
    case True
    obtain r2 w2 where m: "mkstemp w1 ''.txt'' = (r2, w2)" by (cases "mkstemp w1 ''.txt''")
    show ?thesis
    proof (cases r2)
      case (Inl e)
      then show ?thesis using assms ng True m by (simp add: dispatch_def)
    next
      case (Inr out_path)
      let ?argv = "[''cuneiform'', ''-l'', language self, ''-f'', ''text'', ''-o'', out_path, tmp_img]"
      obtain r3 w3 where run: "subprocess_run w2 ?argv = (r3, w3)"
        by (cases "subprocess_run w2 ?argv")
      show ?thesis
      proof (cases r3)
        case (Inl e)
        then show ?thesis using assms ng True m Inr run by (simp add: dispatch_def)
      next
        case (Inr proc)
        note r3 = this
        from run r3 subprocess_run_returns [of w2 ?argv proc w3]
        obtain rc out err fs where ex: "run_tool w2 ?argv (files w2) = Exited rc out err fs"
          and w3: "w3 = log (Spawn ?argv) (w2\<lparr>files := fs\<rparr>)"
          by auto
        have d: "fst (dispatch self w1 tmp_img) = map_sum id strip (fst (read_text w3 out_path Ignore))"
          using ng True m \<open>r2 = Inr out_path\<close> run r3 by (simp add: dispatch_def split_beta)
        show ?thesis
        proof (cases "fs out_path")
          case None
          then show ?thesis using assms d w3 by (simp add: read_text_ignore log_def)
        next
          case (Some bs)
          obtain u where u: "utf8_decode Ignore bs = Inr u"
            using utf8_decode_ignore_total by blast
          have "t = strip (translate_newlines u)"
            using assms d w3 Some u by (simp add: read_text_ignore log_def)
          then show ?thesis using True m \<open>r2 = Inr out_path\<close> ex Some u by blast
        qed
      qed
    qed
  qed
qed

text \<open>
  Claim C2, as amended. When \<open>recognize\<close> succeeds, the value it returns is the
  recognised text alone, a string: for gocr the trimmed standard output of the run, for
  cuneiform the trimmed text of the output file. The engine and the language hint stay
  fields of the engine object; they are not part of the value returned.
\<close>

theorem recognize_returns_text:
  assumes "fst (recognize self cv w img_path) = Inr t"
  shows "engine_available self w \<and>
         (\<exists>tmp_img w1. save_temp_png cv w img_path = (Inr tmp_img, w1) \<and>
            ((engine self = ''gocr'' \<and>
               (\<exists>rc out err fs out_text.
                   run_tool w [''gocr'', tmp_img] (files w1) = Exited rc out err fs
                 \<and> utf8_decode Strict out = Inr out_text
                 \<and> t = strip (translate_newlines out_text)))
           \<or> (engine self = ''cuneiform'' \<and>
               (\<exists>out_path w2 rc out err fs bs u.
                   mkstemp w1 ''.txt'' = (Inr out_path, w2)
                 \<and> run_tool w [''cuneiform'', ''-l'', language self, ''-f'', ''text'', ''-o'',
                                out_path, tmp_img] (files w2) = Exited rc out err fs
                 \<and> fs out_path = Some bs \<and> utf8_decode Ignore bs = Inr u
                 \<and> t = strip (translate_newlines u)))))"
proof -
  have av: "engine_available self w"
    using assms by (auto simp: recognize_def split: if_splits)
  obtain r1 w1 where s: "save_temp_png cv w img_path = (r1, w1)"
    by (cases "save_temp_png cv w img_path")
  obtain tmp_img where r1: "r1 = Inr tmp_img"
    using assms av s by (cases r1) (simp_all add: recognize_def)
  have d: "fst (dispatch self w1 tmp_img) = Inr t"
    using assms av s r1 by (simp add: recognize_def split: prod.splits)
  have k: "run_tool w1 = run_tool w"
    using save_temp_png_keeps_tools s by blast
  have k2: "run_tool w2 = run_tool w" if "mkstemp w1 ''.txt'' = (r, w2)" for r w2
    using mkstemp_keeps_tools [OF that] k by simp
  from dispatch_success [OF d] show ?thesis
  proof
    assume "engine self = ''gocr'' \<and>
           (\<exists>rc out err fs out_text.
               run_tool w1 [''gocr'', tmp_img] (files w1) = Exited rc out err fs
             \<and> utf8_decode Strict out = Inr out_text
             \<and> t = strip (translate_newlines out_text))"
    then show ?thesis using av s r1 k by auto
  next
    assume "engine self = ''cuneiform'' \<and>
           (\<exists>out_path w2 rc out err fs bs u.
               mkstemp w1 ''.txt'' = (Inr out_path, w2)
             \<and> run_tool w2 [''cuneiform'', ''-l'', language self, ''-f'', ''text'', ''-o'',
                             out_path, tmp_img] (files w2) = Exited rc out err fs
             \<and> fs out_path = Some bs \<and> utf8_decode Ignore bs = Inr u
             \<and> t = strip (translate_newlines u))"
    then obtain out_path w2 rc out err fs bs u where c: "engine self = ''cuneiform''"
      and m: "mkstemp w1 ''.txt'' = (Inr out_path, w2)"
      and run: "run_tool w2 [''cuneiform'', ''-l'', language self, ''-f'', ''text'', ''-o'',
                             out_path, tmp_img] (files w2) = Exited rc out err fs"
      and rest: "fs out_path = Some bs" "utf8_decode Ignore bs = Inr u"
                "t = strip (translate_newlines u)"
      by blast
    have "run_tool w [''cuneiform'', ''-l'', language self, ''-f'', ''text'', ''-o'',
                             out_path, tmp_img] (files w2) = Exited rc out err fs"
      using run k2 [OF m] by simp
    then show ?thesis using av s r1 c m rest by blast
  qed
qed

theorem recognize_returns_text_witness:
  "fst (recognize \<lparr>engine = ''gocr'', language = ''eng''\<rparr> stub_cv2
          (stub_world [''gocr''] gocr_prints_hello) ''page.png'') = Inr [72, 69, 76, 76, 79]
   \<and> engine_available \<lparr>engine = ''gocr'', language = ''eng''\<rparr>
          (stub_world [''gocr''] gocr_prints_hello)
   \<and> (\<exists>tmp_img w1 rc out err fs out_text.
          save_temp_png stub_cv2 (stub_world [''gocr''] gocr_prints_hello) ''page.png''
            = (Inr tmp_img, w1)
        \<and> run_tool (stub_world [''gocr''] gocr_prints_hello) [''gocr'', tmp_img] (files w1)
            = Exited rc out err fs
        \<and> utf8_decode Strict out = Inr out_text
        \<and> [72, 69, 76, 76, 79] = strip (translate_newlines out_text))"
proof -
  let ?self = "\<lparr>engine = ''gocr'', language = ''eng''\<rparr>"
  let ?w = "stub_world [''gocr''] gocr_prints_hello"
  have a: "fst (recognize ?self stub_cv2 ?w ''page.png'') = Inr [72, 69, 76, 76, 79]"
    by (simp add: stub_run text_ops)
  show ?thesis using a recognize_returns_text [OF a] by auto
qed

text \<open>
  Claim C2 as stated has the returned value contain the engine specification that was
  used. Two engine objects that differ in the language hint return the same value on the
  same input, so the specification cannot be read off the value.
\<close>

theorem recognize_result_omits_engine:
  "fst (recognize \<lparr>engine = ''gocr'', language = ''eng''\<rparr> stub_cv2
          (stub_world [''gocr''] gocr_prints_hello) ''page.png'') = Inr [72, 69, 76, 76, 79]
   \<and> fst (recognize \<lparr>engine = ''gocr'', language = ''rus''\<rparr> stub_cv2
          (stub_world [''gocr''] gocr_prints_hello) ''page.png'') = Inr [72, 69, 76, 76, 79]
   \<and> \<lparr>engine = ''gocr'', language = ''eng''\<rparr> \<noteq> \<lparr>engine = ''gocr'', language = ''rus''\<rparr>"
  by (simp add: stub_run text_ops)

subsection \<open>Cleanup of the temporary files\<close>

text \<open>Once the temporary PNG exists, every path through \<open>recognize\<close> ends with its
  removal, and the outcome is the outcome of the dispatch: an error of the removal is
  never what the caller sees.\<close>

lemma recognize_removes_temp_png:
  assumes "engine_available self w" and "save_temp_png cv w img_path = (Inr tmp_img, w1)"
  shows "recognize self cv w img_path
           = (fst (dispatch self w1 tmp_img), snd (os_remove (snd (dispatch self w1 tmp_img)) tmp_img))"
    and "last (trace (snd (recognize self cv w img_path))) = Remove tmp_img"
    and "\<not> undeletable (snd (dispatch self w1 tmp_img)) tmp_img
           \<Longrightarrow> files (snd (recognize self cv w img_path)) tmp_img = None"
proof -
  show r: "recognize self cv w img_path
           = (fst (dispatch self w1 tmp_img), snd (os_remove (snd (dispatch self w1 tmp_img)) tmp_img))"
    using assms by (simp add: recognize_def split: prod.splits)
  show "last (trace (snd (recognize self cv w img_path))) = Remove tmp_img"
    unfolding r by (simp add: os_remove_world)
  show "files (snd (recognize self cv w img_path)) tmp_img = None"
    if "\<not> undeletable (snd (dispatch self w1 tmp_img)) tmp_img"
    unfolding r using that by (simp add: os_remove_world)
qed

text \<open>A name handed out by \<open>mkstemp\<close> was unused, and is an empty file afterwards.\<close>

lemma mkstemp_creates_empty:
  "mkstemp w sfx = (Inr p, w') \<Longrightarrow> files w' p = Some []"
  by (auto simp: mkstemp_def log_def split: option.splits)

lemma mkstemp_fresh:
  "mkstemp w sfx = (Inr p, w') \<Longrightarrow> files w p = None"
proof -
  have "first_unused fs sfx cs = Some (p, rest) \<Longrightarrow> fs p = None" for fs cs rest
    by (induction cs) (auto split: if_splits)
  then show "mkstemp w sfx = (Inr p, w') \<Longrightarrow> files w p = None"
    by (auto simp: mkstemp_def split: option.splits)
qed

lemma save_temp_png_exists:
  "save_temp_png cv w img_path = (Inr tmp_img, w1) \<Longrightarrow> files w1 tmp_img \<noteq> None"
  by (auto simp: save_temp_png_def imwrite_def log_def split: prod.splits sum.splits)

text \<open>In any world, a cuneiform run that raises, because the process cannot be started
  or because a captured stream does not decode, ends the call with the error of the
  run. No removal of the output file is in the trace, and the file is left as the run
  left it: empty when the process did not start.\<close>

lemma recognize_cuneiform_run_raises:
  fixes self :: ocr_engine and out_path tmp_img :: path and argv :: "string list"
  defines "argv \<equiv>
    [''cuneiform'', ''-l'', language self, ''-f'', ''text'', ''-o'', out_path, tmp_img]"
  assumes "engine self = ''cuneiform''" and "engine_available self w"
    and "save_temp_png cv w img_path = (Inr tmp_img, w1)"
    and "mkstemp w1 ''.txt'' = (Inr out_path, w2)"
    and "subprocess_run w2 argv = (Inl e, w3)"
  shows "fst (recognize self cv w img_path) = Inl e"
    and "files (snd (recognize self cv w img_path)) out_path = files w3 out_path"
    and "trace (snd (recognize self cv w img_path)) = trace w2 @ [Spawn argv, Remove tmp_img]"
    and "(\<exists>e'. run_tool w2 argv (files w2) = Cannot_start e') \<Longrightarrow> files w3 out_path = Some []"
proof -
  have ne: "out_path \<noteq> tmp_img"
    using mkstemp_fresh [OF assms(5)] save_temp_png_exists [OF assms(4)] by auto
  have d: "dispatch self w1 tmp_img = (Inl e, w3)"
    using assms(2,5,6) by (simp add: dispatch_def argv_def)
  have r: "recognize self cv w img_path = (Inl e, snd (os_remove w3 tmp_img))"
    using assms(3,4) d by (simp add: recognize_def split: prod.splits)
  have tr3: "trace w3 = trace w2 @ [Spawn argv]"
    using subprocess_run_trace(1) [of w2 argv] assms(6) by simp
  show "fst (recognize self cv w img_path) = Inl e" using r by simp
  show "files (snd (recognize self cv w img_path)) out_path = files w3 out_path"
    using r ne by (simp add: os_remove_world(5))
  show "trace (snd (recognize self cv w img_path)) = trace w2 @ [Spawn argv, Remove tmp_img]"
    using r tr3 by (simp add: os_remove_world)
  show "files w3 out_path = Some []" if "\<exists>e'. run_tool w2 argv (files w2) = Cannot_start e'"
    using that assms(6) mkstemp_creates_empty [OF assms(5)]
    by (auto simp: subprocess_run_def log_def)
qed

text \<open>
  Claim C1 asks the same of the cuneiform output file. The inner \<^verbatim>\<open>try\<close> of the
  source opens after \<^verbatim>\<open>subprocess.run\<close> has returned, so a run that raises leaves
  the freshly allocated output file behind: here cuneiform is on the search path and
  cannot be started, \<open>recognize\<close> raises \<^verbatim>\<open>OSError\<close>, the PNG is removed, and the
  output file \<^verbatim>\<open>/tmp/tmpb.txt\<close> is still there. No removal of it was attempted.
\<close>

theorem recognize_cuneiform_leaks_output_file:
  "fst (recognize \<lparr>engine = ''cuneiform'', language = ''eng''\<rparr> stub_cv2
          (stub_world [''cuneiform''] tool_cannot_start) ''page.png'') = Inl OSError
   \<and> files (snd (recognize \<lparr>engine = ''cuneiform'', language = ''eng''\<rparr> stub_cv2
          (stub_world [''cuneiform''] tool_cannot_start) ''page.png'')) ''/tmp/tmpb.txt'' = Some []
   \<and> files (snd (recognize \<lparr>engine = ''cuneiform'', language = ''eng''\<rparr> stub_cv2
          (stub_world [''cuneiform''] tool_cannot_start) ''page.png'')) ''/tmp/tmpa.png'' = None
   \<and> trace (snd (recognize \<lparr>engine = ''cuneiform'', language = ''eng''\<rparr> stub_cv2
          (stub_world [''cuneiform''] tool_cannot_start) ''page.png''))
      = [Imread ''page.png'', MinAreaRect, WarpAffine, Mkstemp ''/tmp/tmpa.png'',
         Imwrite ''/tmp/tmpa.png'', Mkstemp ''/tmp/tmpb.txt'',
         Spawn [''cuneiform'', ''-l'', ''eng'', ''-f'', ''text'', ''-o'', ''/tmp/tmpb.txt'',
                ''/tmp/tmpa.png''],
         Remove ''/tmp/tmpa.png'']"
  by (simp add: stub_run)

text \<open>The same when the process has run: a cuneiform that writes \<^verbatim>\<open>WO\<close> to its output
  file and the byte FF to its standard output makes \<open>recognize\<close> raise
  \<^verbatim>\<open>UnicodeDecodeError\<close>, and the output file stays behind with what was written.\<close>

lemma recognize_cuneiform_leaks_written_output:
  "fst (recognize \<lparr>engine = ''cuneiform'', language = ''eng''\<rparr> stub_cv2
          (stub_world [''cuneiform''] (cuneiform_writes_and_prints [87, 79] [255])) ''page.png'')
      = Inl UnicodeDecodeError
   \<and> files (snd (recognize \<lparr>engine = ''cuneiform'', language = ''eng''\<rparr> stub_cv2
          (stub_world [''cuneiform''] (cuneiform_writes_and_prints [87, 79] [255])) ''page.png''))
        ''/tmp/tmpb.txt'' = Some [87, 79]"
  by (simp add: stub_run text_ops)

subsection \<open>Deskewing\<close>

text \<open>The coordinate list holds exactly the positions of the non-zero pixels.\<close>

lemma in_np_where_gt0:
  "(r, c) \<in> set (np_where_gt0 img) \<longleftrightarrow> r < length img \<and> c < length (img ! r) \<and> 0 < img ! r ! c"
proof
  assume "(r, c) \<in> set (np_where_gt0 img)"
  then show "r < length img \<and> c < length (img ! r) \<and> 0 < img ! r ! c"
    by (auto simp: np_where_gt0_def in_set_enumerate_eq split: prod.splits)
next
  assume a: "r < length img \<and> c < length (img ! r) \<and> 0 < img ! r ! c"
  then have 1: "(r, img ! r) \<in> set (enumerate 0 img)"
    by (simp add: in_set_enumerate_eq)
  have 2: "(c, img ! r ! c) \<in> set (enumerate 0 (img ! r))"
    using a by (simp add: in_set_enumerate_eq)
  have "(r, c) \<in> set (map (\<lambda>(c, v). (r, c)) (filter (\<lambda>(c, v). v > 0) (enumerate 0 (img ! r))))"
    using 2 a by force
  then show "(r, c) \<in> set (np_where_gt0 img)"
    using 1 unfolding np_where_gt0_def by force
qed

lemma set_np_where_gt0:
  "set (np_where_gt0 img) = {(r, c). r < length img \<and> c < length (img ! r) \<and> 0 < img ! r ! c}"
  using in_np_where_gt0 by auto

lemma np_where_gt0_nonempty_shape:
  "np_where_gt0 img \<noteq> [] \<Longrightarrow> img \<noteq> []"
  by (auto simp: np_where_gt0_def)


text \<open>The shape of an image that has a row: its number of rows and the length of its first
  row.\<close>

lemma shape_nonempty: "img \<noteq> [] \<Longrightarrow> shape img = (length img, length (hd img))"
  by (cases img) (simp_all add: shape_def)

text \<open>For a rectangle angle between -90 and 0 the correction stays within 45 degrees.\<close>

lemma correction_angle_bound:
  "- 90 \<le> a \<Longrightarrow> a \<le> 0 \<Longrightarrow> - 45 < correction_angle a \<and> correction_angle a \<le> 45"
  by (simp add: correction_angle_def)

text \<open>
  Claim C7. For an image that decodes and whose binarisation \<open>thresh\<close> has a non-zero
  pixel, the angle reported by \<^verbatim>\<open>minAreaRect\<close> on the coordinates of all non-zero pixels
  is corrected to \<open>- (90 + angle)\<close> when it is below -45 and to \<open>- angle\<close> otherwise, and
  the result is \<open>thresh\<close> warped by the rotation matrix for that angle about the centre
  (half the width, half the height, rounded down) at scale 1, into the width and height
  of \<open>thresh\<close>, with cubic interpolation and replicated borders. Estimation and
  rotation are both in the trace.
\<close>

theorem preprocess_image_deskew:
  fixes cv :: cv2 and img thresh :: image and angle :: real
  defines "thresh \<equiv> binarize cv img"
    and "angle \<equiv> snd (snd (minAreaRect cv (np_where_gt0 (binarize cv img))))"
  assumes "files w img_path = Some bs" and "imdecode cv bs = Some img"
    and "np_where_gt0 thresh \<noteq> []"
  shows "fst (preprocess_image cv w img_path)
           = Inr (warpAffine cv thresh
                    (getRotationMatrix2D cv
                       (real (length (hd thresh) div 2), real (length thresh div 2))
                       (if angle < - 45 then - (90 + angle) else - angle) 1)
                    (length (hd thresh), length thresh) INTER_CUBIC BORDER_REPLICATE)
       \<and> trace (snd (preprocess_image cv w img_path))
           = trace w @ [Imread img_path, MinAreaRect, WarpAffine]
       \<and> set (np_where_gt0 thresh)
           = {(r, c). r < length thresh \<and> c < length (thresh ! r) \<and> 0 < thresh ! r ! c}"
proof -
  have sh: "shape thresh = (length thresh, length (hd thresh))"
    using assms(5) np_where_gt0_nonempty_shape shape_nonempty by blast
  have rd: "imread cv w img_path = (Some img, log (Imread img_path) w)"
    using assms(3,4) by (simp add: imread_def)
  show ?thesis
    using rd assms(5) sh unfolding thresh_def angle_def
    by (simp add: preprocess_image_def correction_angle_def set_np_where_gt0 log_def Let_def
        del: set_empty2)
qed

theorem preprocess_image_deskew_witness:
  "fst (preprocess_image stub_cv2 (stub_world [''gocr''] gocr_prints_hello) ''page.png'')
     = Inr [[255, 191, 0, 0, 255, 255]]
   \<and> warpAffine stub_cv2 [[255, 255, 0, 0, 255, 255]]
        (getRotationMatrix2D stub_cv2 (3, 0) (- 30) 1) (6, 1) INTER_CUBIC BORDER_REPLICATE
     = [[255, 191, 0, 0, 255, 255]]
   \<and> trace (snd (preprocess_image stub_cv2 (stub_world [''gocr''] gocr_prints_hello)
                    ''page.png''))
     = [Imread ''page.png'', MinAreaRect, WarpAffine]
   \<and> set (np_where_gt0 [[255, 255, 0, 0, 255, 255]]) = {(0, 0), (0, 1), (0, 4), (0, 5)}"
proof -
  let ?w = "stub_world [''gocr''] gocr_prints_hello"
  let ?img = "[[255, 255, 0, 0, 255, 255]] :: image"
  have a: "files ?w ''page.png'' = Some [255, 255, 0, 0, 255, 255]"
    by (simp add: stub_world_fields)
  have b: "imdecode stub_cv2 [255, 255, 0, 0, 255, 255] = Some ?img"
    by (simp add: stub_cv2_def stub_cv2_fields)
  have bin: "binarize stub_cv2 ?img = ?img"
    by (simp add: stub_cv2_def stub_binarize_page)
  have c: "np_where_gt0 (binarize stub_cv2 ?img) \<noteq> []"
    using bin by (simp add: stub_coords)
  have ang: "snd (snd (minAreaRect stub_cv2 (np_where_gt0 ?img))) = - 60"
    by (simp add: stub_cv2_def stub_cv2_fields)
  have m: "(if (- 60 :: real) < - 45 then - (90 + - 60) else - (- 60)) = (- 30 :: real)"
    by simp
  have t: "trace ?w = []" by (simp add: stub_world_fields)
  have wp: "warpAffine stub_cv2 ?img (getRotationMatrix2D stub_cv2 (3, 0) (- 30) 1) (6, 1)
              INTER_CUBIC BORDER_REPLICATE = [[255, 191, 0, 0, 255, 255]]"
    using stub_warp_page
    by (simp add: stub_cv2_def stub_cv2_fields stub_getRotationMatrix2D_def)
  have len: "length (hd ?img) = 6" "length ?img = 1"
    by simp_all
  note deskew = preprocess_image_deskew [OF a b c, unfolded bin len ang]
  show ?thesis
    using deskew m t wp by (simp add: stub_coords)
qed

subsection \<open>Size and values of the result\<close>







subsection \<open>Pages without foreground\<close>




subsection \<open>Black-and-white pages with zero skew\<close>





end
